theory Spec2Isabelle
  imports Complex_Main "HOL-Library.AList"
begin

section \<open>SpoolSense: inventory reconciliation, embedded from the backend sources\<close>

text \<open>
  The development follows the Python sources under \<open>backend/app\<close>:
  \<open>services/spool_validator.py\<close>, \<open>services/cost_calculator.py\<close> and the routers
  \<open>print_jobs.py\<close>, \<open>orders.py\<close> and \<open>product_on_hand.py\<close>, with the rows of
  \<open>models/*.py\<close> as records.

  Conventions.
  \<^item> A Python \<open>float\<close> is a \<open>real\<close>: arithmetic is exact, the rounding error of IEEE
    doubles is not modelled. Python's \<open>round(x, n)\<close> is \<open>py_round\<close> (ties to even).
  \<^item> A table is a map from the primary key to the row; a relationship collection
    (\<open>job.print_job_spools\<close>, \<open>order.order_hardware\<close>, \<open>project.hardware\<close>) is a list
    held by the parent row, in insertion order. The products table is an association list,
    since \<open>delete_print_job\<close> searches it by a column that is not its key.
  \<^item> An endpoint is a function from the database (and the request) to \<open>error + result\<close>.
    \<open>Inl\<close> is a raised exception: the session is closed without a commit, so the
    database stays as it was before the request. \<open>Inr\<close> carries the committed database.
  \<^item> The session has \<open>autoflush = False\<close> and an identity map, so a row changed earlier
    in a request is read back changed later in the same request: plain state passing.
  \<^item> The primary key the database assigns to a new row is a parameter \<open>new_id\<close> of the
    creating endpoint.
  \<^item> Columns that the stock logic only copies (customer fields, notes, dates, URLs)
    are left out of the records. Where two rows share a column name the fields carry a
    prefix of the row (\<open>pj_status\<close>, \<open>o_status\<close>, \<open>poh_status\<close>).
\<close>

subsection \<open>Python values\<close>

text \<open>Truthiness of \<open>int | None\<close>, \<open>float | None\<close> and \<open>str | None\<close> as used by \<open>if x:\<close>.\<close>

definition truthy_int :: "int option \<Rightarrow> bool" where
  "truthy_int v = (case v of None \<Rightarrow> False | Some i \<Rightarrow> i \<noteq> 0)"


definition truthy_str :: "string option \<Rightarrow> bool" where
  "truthy_str v = (case v of None \<Rightarrow> False | Some s \<Rightarrow> s \<noteq> [])"

text \<open>\<open>round(x, ndigits)\<close>: to the nearest multiple of \<open>10 ^ -ndigits\<close>, a tie to the even one.\<close>

definition round_half_even :: "real \<Rightarrow> int" where
  "round_half_even x =
     (let f = \<lfloor>x\<rfloor>; d = x - of_int f
      in if d < 1 / 2 then f
         else if 1 / 2 < d then f + 1
         else if even f then f else f + 1)"

definition py_round :: "real \<Rightarrow> nat \<Rightarrow> real" where
  "py_round x ndigits = of_int (round_half_even (x * 10 ^ ndigits)) / 10 ^ ndigits"

subsection \<open>Errors\<close>

record spool_shortage =
  sh_spool_id :: int
  sh_tracking_id :: "string option"
  sh_color_name :: string
  sh_filament_type_name :: string
  sh_manufacturer_name :: "string option"
  current_weight_g :: real
  requested_weight_g :: real
  resulting_weight_g :: real
  shortage_g :: real
  within_reserve :: bool

text \<open>
  The exceptions the endpoints raise. \<open>Not_found\<close> is HTTP 404, \<open>Conflict\<close> 409,
  \<open>Spool_shortage\<close> 422 (detail of type \<open>spool_shortage\<close>); \<open>Bad_request\<close>,
  \<open>Spool_not_found\<close>, \<open>Hardware_not_found\<close>, \<open>Linked_to_product\<close> and
  \<open>Insufficient_stock\<close> (item name, available, required) are HTTP 400 with the
  corresponding detail text.
  \<open>Integrity_error\<close> is a constraint violation raised by \<open>db.commit()\<close>, rolled back and
  re-raised; \<open>Type_error\<close> and \<open>Attribute_error\<close> are the uncaught Python exceptions.
\<close>

datatype error =
    Not_found string
  | Bad_request string
  | Spool_not_found int
  | Hardware_not_found "int option"
  | Insufficient_stock string int int
  | Spool_shortage "spool_shortage list"
  | Linked_to_product int
  | Conflict string
  | Integrity_error
  | Type_error
  | Attribute_error

subsection \<open>Rows (models)\<close>

record app_settings =
  currency_symbol :: string
  electricity_rate_kwh :: real
  printer_wattage :: real
  hourly_rate :: real
  machine_depreciation_rate :: real
  profit_margin_percent :: real
  fixed_fee_per_order :: real
  enable_spool_negative_prevention :: bool
  minimum_spool_reserve_g :: real

text \<open>\<open>filament_type_name\<close> and \<open>manufacturer_name\<close> are \<open>spool.filament_type.name\<close> and
  \<open>spool.manufacturer.name\<close> (or \<open>None\<close>).\<close>

record spool =
  tracking_id :: "string option"
  color_name :: string
  filament_type_name :: string
  manufacturer_name :: "string option"
  total_weight_g :: real
  remaining_weight_g :: real
  purchase_price :: real

record hardware_item =
  hw_name :: string
  hw_purchase_price :: real
  quantity_purchased :: int
  quantity_in_stock :: int

definition cost_per_item :: "hardware_item \<Rightarrow> real" where
  "cost_per_item item =
     (if quantity_purchased item \<le> 0 then 0
      else py_round (hw_purchase_price item / of_int (quantity_purchased item)) 4)"

record project_hardware =
  ph_hardware_item_id :: int
  ph_quantity :: int

record project =
  filament_grams :: "real option"
  print_time_hours :: "real option"
  hardware :: "project_hardware list"

record print_job_spool =
  pjs_spool_id :: int
  pjs_filament_used_g :: real
  pjs_position :: int

record print_job =
  pj_spool_id :: "int option"
  pj_project_id :: "int option"
  pj_order_id :: "int option"
  pj_name :: string
  pj_filament_used_g :: "real option"
  pj_status :: string
  print_job_spools :: "print_job_spool list"

record order_spool =
  os_spool_id :: int
  os_filament_grams :: real
  os_position :: int
  cost_per_kg_snapshot :: real

record order_hardware =
  oh_hardware_item_id :: "int option"
  oh_quantity :: int
  unit_cost_snapshot :: "real option"
  oh_is_one_off :: bool
  oh_one_off_name :: "string option"
  oh_one_off_cost :: "real option"

record order =
  o_project_id :: "int option"
  o_spool_id :: "int option"
  o_status :: string
  filament_grams_snapshot :: "real option"
  print_time_hours_snapshot :: "real option"
  order_spools :: "order_spool list"
  order_hardware :: "order_hardware list"

record product_on_hand =
  poh_project_id :: "int option"
  poh_print_job_id :: int
  poh_name :: string
  poh_status :: string
  poh_location :: "string option"
  poh_notes :: "string option"

record db =
  settings_row :: "app_settings option"
  spools :: "int \<rightharpoonup> spool"
  hardware_items :: "int \<rightharpoonup> hardware_item"
  projects :: "int \<rightharpoonup> project"
  print_jobs :: "int \<rightharpoonup> print_job"
  orders :: "int \<rightharpoonup> order"
  products_on_hand :: "(int \<times> product_on_hand) list"

subsection \<open>services/spool\_validator.py\<close>

record spool_validation_result =
  is_valid :: bool
  shortages :: "spool_shortage list"

text \<open>The two local variables of the loop body of \<open>validate_spool_inventory\<close>.\<close>

definition usable_weight :: "spool \<Rightarrow> real \<Rightarrow> real" where
  "usable_weight spool reserve_g = remaining_weight_g spool - reserve_g"

definition resulting_weight :: "spool \<Rightarrow> real \<Rightarrow> real \<Rightarrow> real" where
  "resulting_weight spool reserve_g grams_to_use = usable_weight spool reserve_g - grams_to_use"

definition make_shortage :: "int \<Rightarrow> spool \<Rightarrow> real \<Rightarrow> spool_shortage" where
  "make_shortage spool_id spool grams_to_use =
     \<lparr> sh_spool_id = spool_id,
       sh_tracking_id = tracking_id spool,
       sh_color_name = color_name spool,
       sh_filament_type_name = filament_type_name spool,
       sh_manufacturer_name = manufacturer_name spool,
       current_weight_g = remaining_weight_g spool,
       requested_weight_g = grams_to_use,
       resulting_weight_g = remaining_weight_g spool - grams_to_use,
       shortage_g = max 0 (grams_to_use - remaining_weight_g spool),
       within_reserve = (remaining_weight_g spool \<ge> grams_to_use) \<rparr>"

text \<open>The \<open>for spool_id, grams_to_use in spool_usages\<close> loop, appending to \<open>shortages\<close>.\<close>

fun collect_shortages :: "(int \<rightharpoonup> spool) \<Rightarrow> real \<Rightarrow> (int \<times> real) list \<Rightarrow> spool_shortage list" where
  "collect_shortages sp reserve_g [] = []"
| "collect_shortages sp reserve_g ((spool_id, grams_to_use) # rest) =
     (case sp spool_id of
        None \<Rightarrow> collect_shortages sp reserve_g rest
      | Some spool \<Rightarrow>
          if resulting_weight spool reserve_g grams_to_use < 0
          then make_shortage spool_id spool grams_to_use # collect_shortages sp reserve_g rest
          else collect_shortages sp reserve_g rest)"

definition reserve_setting :: "db \<Rightarrow> real" where
  "reserve_setting d = (case settings_row d of Some s \<Rightarrow> minimum_spool_reserve_g s | None \<Rightarrow> 5)"

text \<open>\<open>settings.enable_spool_negative_prevention if settings else True\<close>, read by the
  validator and by every deduction site.\<close>

definition prevention_setting :: "db \<Rightarrow> bool" where
  "prevention_setting d =
     (case settings_row d of Some s \<Rightarrow> enable_spool_negative_prevention s | None \<Rightarrow> True)"

definition validate_spool_inventory :: "db \<Rightarrow> (int \<times> real) list \<Rightarrow> spool_validation_result" where
  "validate_spool_inventory d spool_usages =
     (if \<not> prevention_setting d then \<lparr> is_valid = True, shortages = [] \<rparr>
      else (let found = collect_shortages (spools d) (reserve_setting d) spool_usages
            in \<lparr> is_valid = (length found = 0), shortages = found \<rparr>))"

subsection \<open>services/cost\_calculator.py\<close>



subsection \<open>routers/print\_jobs.py\<close>

definition deduct_spool :: "spool \<Rightarrow> real \<Rightarrow> bool \<Rightarrow> spool" where
  "deduct_spool spool grams prevent_negative =
     (if prevent_negative
      then spool\<lparr>remaining_weight_g := max 0 (remaining_weight_g spool - grams)\<rparr>
      else spool\<lparr>remaining_weight_g := remaining_weight_g spool - grams\<rparr>)"

text \<open>Request bodies (\<open>schemas/print_job.py\<close>). In an update body a field of type
  \<open>'a option option\<close> is \<open>None\<close> when the request leaves it out (\<open>exclude_unset\<close>),
  \<open>Some None\<close> when it is an explicit null, and \<open>Some (Some v)\<close> when it has a value.\<close>

record print_job_spool_input =
  in_spool_id :: int
  in_filament_used_g :: real
  in_position :: int


record print_job_update =
  pju_spool_id :: "int option option"
  pju_project_id :: "int option option"
  pju_order_id :: "int option option"
  pju_name :: "string option option"
  pju_filament_used_g :: "real option option"
  pju_status :: "string option option"
  pju_spools :: "print_job_spool_input list option option"
  pju_force :: bool



definition spool_usages_of :: "print_job_spool_input list \<Rightarrow> (int \<times> real) list" where
  "spool_usages_of es = map (\<lambda>e. (in_spool_id e, in_filament_used_g e)) es"

definition spool_rows_of :: "print_job_spool_input list \<Rightarrow> print_job_spool list" where
  "spool_rows_of es =
     map (\<lambda>e. \<lparr> pjs_spool_id = in_spool_id e, pjs_filament_used_g = in_filament_used_g e,
                pjs_position = in_position e \<rparr>) es"

definition row_usages_of :: "print_job_spool list \<Rightarrow> (int \<times> real) list" where
  "row_usages_of rows = map (\<lambda>r. (pjs_spool_id r, pjs_filament_used_g r)) rows"

text \<open>The loops \<open>for spool_entry in data.spools: if not spool: raise\<close>: the first id that
  has no row.\<close>

fun first_missing_spool :: "(int \<rightharpoonup> spool) \<Rightarrow> int list \<Rightarrow> int option" where
  "first_missing_spool sp [] = None"
| "first_missing_spool sp (i # rest) =
     (case sp i of None \<Rightarrow> Some i | Some _ \<Rightarrow> first_missing_spool sp rest)"

text \<open>The deduction loop over the entries, one \<open>_deduct_spool\<close> per entry in list order.
  The update path guards with \<open>if spool:\<close>; the creation path has checked before that
  every spool exists, so the \<open>None\<close> case does not occur there.\<close>

fun deduct_spools :: "(int \<rightharpoonup> spool) \<Rightarrow> bool \<Rightarrow> (int \<times> real) list \<Rightarrow> (int \<rightharpoonup> spool)" where
  "deduct_spools sp prevent [] = sp"
| "deduct_spools sp prevent ((spool_id, grams) # rest) =
     (case sp spool_id of
        None \<Rightarrow> deduct_spools sp prevent rest
      | Some spool \<Rightarrow> deduct_spools (sp(spool_id \<mapsto> deduct_spool spool grams prevent)) prevent rest)"

text \<open>The restoration loop: \<open>if spool: spool.remaining_weight_g += grams\<close>.\<close>

fun restore_spools :: "(int \<rightharpoonup> spool) \<Rightarrow> (int \<times> real) list \<Rightarrow> (int \<rightharpoonup> spool)" where
  "restore_spools sp [] = sp"
| "restore_spools sp ((spool_id, grams) # rest) =
     (case sp spool_id of
        None \<Rightarrow> restore_spools sp rest
      | Some spool \<Rightarrow>
          restore_spools
            (sp(spool_id \<mapsto> spool\<lparr>remaining_weight_g := remaining_weight_g spool + grams\<rparr>)) rest)"

text \<open>\<open>db.commit()\<close> for a print job: the foreign keys of the row, and for its
  \<open>print_job_spools\<close> the unique \<open>(print_job_id, position)\<close>, the check
  \<open>1 \<le> position \<le> 6\<close> and the foreign key to the spool.\<close>

definition fk_present :: "(int \<rightharpoonup> 'a) \<Rightarrow> int option \<Rightarrow> bool" where
  "fk_present table key = (case key of None \<Rightarrow> True | Some i \<Rightarrow> table i \<noteq> None)"

definition print_job_constraints :: "db \<Rightarrow> print_job \<Rightarrow> bool" where
  "print_job_constraints d job =
     (fk_present (spools d) (pj_spool_id job)
      \<and> fk_present (projects d) (pj_project_id job)
      \<and> fk_present (orders d) (pj_order_id job)
      \<and> distinct (map pjs_position (print_job_spools job))
      \<and> list_all (\<lambda>r. 1 \<le> pjs_position r \<and> pjs_position r \<le> 6 \<and> spools d (pjs_spool_id r) \<noteq> None)
           (print_job_spools job))"

definition commit_print_job :: "db \<Rightarrow> int \<Rightarrow> print_job \<Rightarrow> error + db" where
  "commit_print_job d job_id job =
     (if print_job_constraints d job
      then Inr (d\<lparr>print_jobs := (print_jobs d)(job_id \<mapsto> job)\<rparr>)
      else Inl Integrity_error)"






text \<open>\<open>update_print_job\<close>, first branch: \<open>spools\<close> is in the body and is a list.
  The result is the spool table and the new \<open>print_job_spools\<close> rows.\<close>

definition restored_on_replace :: "print_job \<Rightarrow> (int \<times> real) list" where
  "restored_on_replace job =
     (if pj_status job = ''completed''
      then (if print_job_spools job \<noteq> [] then row_usages_of (print_job_spools job)
            else (case (pj_spool_id job, pj_filament_used_g job) of
                    (Some sid, Some g) \<Rightarrow> if sid \<noteq> 0 \<and> g \<noteq> 0 then [(sid, g)] else []
                  | _ \<Rightarrow> []))
      else [])"

definition replace_print_job_spools ::
  "db \<Rightarrow> print_job \<Rightarrow> print_job_update \<Rightarrow> print_job_spool_input list
     \<Rightarrow> error + (int \<rightharpoonup> spool) \<times> print_job_spool list" where
  "replace_print_job_spools d job data spools_upd =
     (let sp1 = restore_spools (spools d) (restored_on_replace job);
          new_status = (case pju_status data of None \<Rightarrow> Some (pj_status job) | Some v \<Rightarrow> v);
          validation = validate_spool_inventory (d\<lparr>spools := sp1\<rparr>) (spool_usages_of spools_upd)
      in case first_missing_spool sp1 (map in_spool_id spools_upd) of
           Some sid \<Rightarrow> Inl (Spool_not_found sid)
         | None \<Rightarrow>
             if new_status = Some ''completed'' \<and> \<not> pju_force data \<and> \<not> is_valid validation
             then Inl (Spool_shortage (shortages validation))
             else Inr (if new_status = Some ''completed''
                       then deduct_spools sp1 (prevention_setting d) (spool_usages_of spools_upd)
                       else sp1,
                       spool_rows_of spools_upd))"

text \<open>Second branch: \<open>filament_used_g\<close> is in the body, the job is completed and has no
  \<open>print_job_spools\<close>. An explicit null makes \<open>new_used - old_used\<close> a \<open>TypeError\<close>.\<close>

definition legacy_filament_update ::
  "db \<Rightarrow> print_job \<Rightarrow> print_job_update \<Rightarrow> error + (int \<rightharpoonup> spool) \<times> print_job_spool list" where
  "legacy_filament_update d job data =
     (case (case pj_spool_id job of None \<Rightarrow> None | Some sid \<Rightarrow> spools d sid) of
        None \<Rightarrow> Inr (spools d, print_job_spools job)
      | Some spool \<Rightarrow>
          (case pju_filament_used_g data of
             Some (Some new_used) \<Rightarrow>
               (let sid = (case pj_spool_id job of None \<Rightarrow> 0 | Some i \<Rightarrow> i);
                    old_used = (case pj_filament_used_g job of None \<Rightarrow> 0 | Some g \<Rightarrow> g);
                    net_change = new_used - old_used;
                    validation = validate_spool_inventory d [(sid, net_change)]
                in if 0 < net_change \<and> \<not> pju_force data \<and> \<not> is_valid validation
                   then Inl (Spool_shortage (shortages validation))
                   else Inr ((spools d)(sid \<mapsto>
                               deduct_spool spool (new_used - old_used) (prevention_setting d)),
                             print_job_spools job))
           | _ \<Rightarrow> Inl Type_error))"

text \<open>\<open>for key, value in update_data.items(): setattr(job, key, value)\<close>. The columns
  \<open>name\<close> and \<open>status\<close> are \<open>NOT NULL\<close>: an explicit null there fails the commit.\<close>

definition apply_print_job_update :: "print_job \<Rightarrow> print_job_update \<Rightarrow> print_job" where
  "apply_print_job_update job data =
     job\<lparr> pj_spool_id := (case pju_spool_id data of None \<Rightarrow> pj_spool_id job | Some v \<Rightarrow> v),
          pj_project_id := (case pju_project_id data of None \<Rightarrow> pj_project_id job | Some v \<Rightarrow> v),
          pj_order_id := (case pju_order_id data of None \<Rightarrow> pj_order_id job | Some v \<Rightarrow> v),
          pj_name := (case pju_name data of Some (Some n) \<Rightarrow> n | _ \<Rightarrow> pj_name job),
          pj_filament_used_g :=
            (case pju_filament_used_g data of None \<Rightarrow> pj_filament_used_g job | Some v \<Rightarrow> v),
          pj_status := (case pju_status data of Some (Some s) \<Rightarrow> s | _ \<Rightarrow> pj_status job) \<rparr>"

definition update_print_job :: "db \<Rightarrow> int \<Rightarrow> print_job_update \<Rightarrow> error + db" where
  "update_print_job d job_id data =
     (case print_jobs d job_id of
        None \<Rightarrow> Inl (Not_found ''Print job not found'')
      | Some job \<Rightarrow>
          (case (case pju_spools data of
                   Some (Some spools_upd) \<Rightarrow> replace_print_job_spools d job data spools_upd
                 | _ \<Rightarrow>
                     if pju_filament_used_g data \<noteq> None \<and> pj_status job = ''completed''
                        \<and> print_job_spools job = []
                     then legacy_filament_update d job data
                     else Inr (spools d, print_job_spools job)) of
             Inl e \<Rightarrow> Inl e
           | Inr (sp, rows) \<Rightarrow>
               if (case pju_spool_id data of
                     None \<Rightarrow> False
                   | Some None \<Rightarrow> True
                   | Some (Some sid) \<Rightarrow> sp sid = None)
               then Inl (Bad_request ''Spool not found'')
               else if pju_name data = Some None \<or> pju_status data = Some None
               then Inl Integrity_error
               else commit_print_job (d\<lparr>spools := sp\<rparr>) job_id
                      ((apply_print_job_update job data)\<lparr>print_job_spools := rows\<rparr>)))"

subsection \<open>routers/orders.py\<close>

record order_spool_input =
  osi_spool_id :: int
  osi_filament_grams :: real
  osi_position :: int

record order_hardware_input =
  ohi_hardware_item_id :: "int option"
  ohi_quantity :: int
  ohi_is_one_off :: bool
  ohi_one_off_name :: "string option"
  ohi_one_off_cost :: "real option"

record order_create =
  oc_project_id :: "int option"
  oc_spool_id :: "int option"
  oc_status :: string
  oc_hardware_items :: "order_hardware_input list"
  oc_spools :: "order_spool_input list"

text \<open>\<open>OrderUpdate\<close>. \<open>ou_hardware_items\<close> and \<open>ou_spools\<close> are \<open>None\<close> both when the
  field is left out and when it is an explicit null: the endpoint tests
  \<open>hardware_items_update is not None\<close> and \<open>spools_was_set and spools_update is not None\<close>.\<close>

record order_update =
  ou_project_id :: "int option option"
  ou_spool_id :: "int option option"
  ou_status :: "string option option"
  ou_hardware_items :: "order_hardware_input list option"
  ou_spools :: "order_spool_input list option"

definition spool_cost_per_kg :: "spool \<Rightarrow> real" where
  "spool_cost_per_kg spool =
     (if 0 < total_weight_g spool
      then py_round ((purchase_price spool / total_weight_g spool) * 1000) 4
      else 0)"

text \<open>The loop that builds the \<open>OrderSpool\<close> rows, raising at the first missing spool.\<close>

fun make_order_spools :: "(int \<rightharpoonup> spool) \<Rightarrow> order_spool_input list \<Rightarrow> error + order_spool list" where
  "make_order_spools sp [] = Inr []"
| "make_order_spools sp (spool_input # rest) =
     (case sp (osi_spool_id spool_input) of
        None \<Rightarrow> Inl (Spool_not_found (osi_spool_id spool_input))
      | Some spool \<Rightarrow>
          (case make_order_spools sp rest of
             Inl e \<Rightarrow> Inl e
           | Inr rows \<Rightarrow>
               Inr (\<lparr> os_spool_id = osi_spool_id spool_input,
                      os_filament_grams = osi_filament_grams spool_input,
                      os_position = osi_position spool_input,
                      cost_per_kg_snapshot = spool_cost_per_kg spool \<rparr> # rows)))"

text \<open>The loop that builds the \<open>OrderHardware\<close> rows. No stock is touched here.\<close>

fun make_order_hardware ::
  "(int \<rightharpoonup> hardware_item) \<Rightarrow> order_hardware_input list \<Rightarrow> error + order_hardware list" where
  "make_order_hardware hw [] = Inr []"
| "make_order_hardware hw (hw_input # rest) =
     (if ohi_is_one_off hw_input
      then (case make_order_hardware hw rest of
              Inl e \<Rightarrow> Inl e
            | Inr rows \<Rightarrow>
                Inr (\<lparr> oh_hardware_item_id = None,
                       oh_quantity = ohi_quantity hw_input,
                       unit_cost_snapshot = ohi_one_off_cost hw_input,
                       oh_is_one_off = True,
                       oh_one_off_name = ohi_one_off_name hw_input,
                       oh_one_off_cost = ohi_one_off_cost hw_input \<rparr> # rows))
      else (case (case ohi_hardware_item_id hw_input of None \<Rightarrow> None | Some i \<Rightarrow> hw i) of
              None \<Rightarrow> Inl (Hardware_not_found (ohi_hardware_item_id hw_input))
            | Some hardware_item \<Rightarrow>
                (case make_order_hardware hw rest of
                   Inl e \<Rightarrow> Inl e
                 | Inr rows \<Rightarrow>
                     Inr (\<lparr> oh_hardware_item_id = ohi_hardware_item_id hw_input,
                            oh_quantity = ohi_quantity hw_input,
                            unit_cost_snapshot = Some (cost_per_item hardware_item),
                            oh_is_one_off = False,
                            oh_one_off_name = None,
                            oh_one_off_cost = None \<rparr> # rows))))"

text \<open>\<open>db.commit()\<close> for an order: the foreign keys of the row, and for its
  \<open>order_spools\<close> the unique \<open>(order_id, position)\<close> and the check on the position.\<close>

definition order_constraints :: "db \<Rightarrow> order \<Rightarrow> bool" where
  "order_constraints d ord =
     (fk_present (projects d) (o_project_id ord)
      \<and> fk_present (spools d) (o_spool_id ord)
      \<and> distinct (map os_position (order_spools ord))
      \<and> list_all (\<lambda>r. 1 \<le> os_position r \<and> os_position r \<le> 6) (order_spools ord))"

definition commit_order :: "db \<Rightarrow> int \<Rightarrow> order \<Rightarrow> error + db" where
  "commit_order d order_id ord =
     (if order_constraints d ord
      then Inr (d\<lparr>orders := (orders d)(order_id \<mapsto> ord)\<rparr>)
      else Inl Integrity_error)"

definition create_order :: "db \<Rightarrow> int \<Rightarrow> order_create \<Rightarrow> error + db" where
  "create_order d new_id data =
     (if truthy_int (oc_project_id data)
         \<and> (case oc_project_id data of None \<Rightarrow> None | Some pid \<Rightarrow> projects d pid) = None
      then Inl (Bad_request ''Project not found'')
      else if truthy_int (oc_spool_id data)
         \<and> (case oc_spool_id data of None \<Rightarrow> None | Some sid \<Rightarrow> spools d sid) = None
      then Inl (Bad_request ''Spool not found'')
      else if oc_spools data \<noteq> []
         \<and> length (map osi_position (oc_spools data)) \<noteq> card (set (map osi_position (oc_spools data)))
      then Inl (Bad_request ''Duplicate spool positions are not allowed'')
      else
        (case make_order_spools (spools d) (oc_spools data) of
           Inl e \<Rightarrow> Inl e
         | Inr spool_rows \<Rightarrow>
             (case make_order_hardware (hardware_items d) (oc_hardware_items data) of
                Inl e \<Rightarrow> Inl e
              | Inr hardware_rows \<Rightarrow>
                  (let project = (if truthy_int (oc_project_id data)
                                  then (case oc_project_id data of
                                          None \<Rightarrow> None | Some pid \<Rightarrow> projects d pid)
                                  else None)
                   in commit_order d new_id
                        \<lparr> o_project_id = oc_project_id data,
                          o_spool_id = oc_spool_id data,
                          o_status = oc_status data,
                          filament_grams_snapshot =
                            (case project of None \<Rightarrow> None | Some p \<Rightarrow> filament_grams p),
                          print_time_hours_snapshot =
                            (case project of None \<Rightarrow> None | Some p \<Rightarrow> print_time_hours p),
                          order_spools = spool_rows,
                          order_hardware = hardware_rows \<rparr>))))"

text \<open>The deduction loop of \<open>update_order\<close> (\<open>if needs_deduct:\<close>): one-off lines are
  skipped, a line whose item has no row is skipped, a line that asks for more than is in
  stock raises.\<close>

fun deduct_order_hardware ::
  "(int \<rightharpoonup> hardware_item) \<Rightarrow> order_hardware list \<Rightarrow> error + (int \<rightharpoonup> hardware_item)" where
  "deduct_order_hardware hw [] = Inr hw"
| "deduct_order_hardware hw (oh # rest) =
     (if oh_is_one_off oh then deduct_order_hardware hw rest
      else (case oh_hardware_item_id oh of
              None \<Rightarrow> deduct_order_hardware hw rest
            | Some i \<Rightarrow>
                (case hw i of
                   None \<Rightarrow> deduct_order_hardware hw rest
                 | Some hardware_item \<Rightarrow>
                     if quantity_in_stock hardware_item < oh_quantity oh
                     then Inl (Insufficient_stock (hw_name hardware_item)
                                 (quantity_in_stock hardware_item) (oh_quantity oh))
                     else deduct_order_hardware
                            (hw(i \<mapsto> hardware_item\<lparr>quantity_in_stock :=
                                       quantity_in_stock hardware_item - oh_quantity oh\<rparr>))
                            rest)))"

text \<open>The restoration loop of \<open>update_order\<close> (\<open>elif needs_restore:\<close>) and of
  \<open>delete_order\<close>.\<close>

fun restore_order_hardware ::
  "(int \<rightharpoonup> hardware_item) \<Rightarrow> order_hardware list \<Rightarrow> (int \<rightharpoonup> hardware_item)" where
  "restore_order_hardware hw [] = hw"
| "restore_order_hardware hw (oh # rest) =
     (if oh_is_one_off oh then restore_order_hardware hw rest
      else (case oh_hardware_item_id oh of
              None \<Rightarrow> restore_order_hardware hw rest
            | Some i \<Rightarrow>
                (case hw i of
                   None \<Rightarrow> restore_order_hardware hw rest
                 | Some hardware_item \<Rightarrow>
                     restore_order_hardware
                       (hw(i \<mapsto> hardware_item\<lparr>quantity_in_stock :=
                                  quantity_in_stock hardware_item + oh_quantity oh\<rparr>))
                       rest)))"

text \<open>The restoration loop inside the hardware replacement of \<open>update_order\<close>, guarded
  by \<open>if not oh.is_one_off and oh.hardware_item_id:\<close>.\<close>

fun restore_replaced_hardware ::
  "(int \<rightharpoonup> hardware_item) \<Rightarrow> order_hardware list \<Rightarrow> (int \<rightharpoonup> hardware_item)" where
  "restore_replaced_hardware hw [] = hw"
| "restore_replaced_hardware hw (oh # rest) =
     (if \<not> oh_is_one_off oh \<and> truthy_int (oh_hardware_item_id oh)
      then (case (case oh_hardware_item_id oh of None \<Rightarrow> None | Some i \<Rightarrow> hw i) of
              None \<Rightarrow> restore_replaced_hardware hw rest
            | Some hardware_item \<Rightarrow>
                restore_replaced_hardware
                  (hw((case oh_hardware_item_id oh of None \<Rightarrow> 0 | Some i \<Rightarrow> i) \<mapsto>
                        hardware_item\<lparr>quantity_in_stock :=
                          quantity_in_stock hardware_item + oh_quantity oh\<rparr>))
                  rest)
      else restore_replaced_hardware hw rest)"

text \<open>The two flags of \<open>update_order\<close>; \<open>replaced\<close> is
  \<open>hardware_items_update is not None\<close>, and the new status is \<open>None\<close> after an explicit
  null.\<close>

definition needs_deduct :: "string \<Rightarrow> string option \<Rightarrow> bool \<Rightarrow> bool" where
  "needs_deduct old_status new_status replaced =
     (new_status = Some ''finished'' \<and> (old_status \<noteq> ''finished'' \<or> replaced))"

definition needs_restore :: "string \<Rightarrow> string option \<Rightarrow> bool \<Rightarrow> bool" where
  "needs_restore old_status new_status replaced =
     (old_status = ''finished'' \<and> new_status \<noteq> Some ''finished'' \<and> \<not> replaced)"

text \<open>The head of \<open>update_order\<close>: the checks on \<open>project_id\<close> and \<open>spool_id\<close>, the
  snapshots and \<open>setattr\<close> (the status is set at the commit, where it is known not to be
  null).\<close>

definition apply_order_update :: "db \<Rightarrow> order \<Rightarrow> order_update \<Rightarrow> error + order" where
  "apply_order_update d ord data =
     (if (case ou_project_id data of
            Some (Some pid) \<Rightarrow> pid \<noteq> 0 \<and> projects d pid = None | _ \<Rightarrow> False)
      then Inl (Bad_request ''Project not found'')
      else if (case ou_spool_id data of
                 Some (Some sid) \<Rightarrow> sid \<noteq> 0 \<and> spools d sid = None | _ \<Rightarrow> False)
      then Inl (Bad_request ''Spool not found'')
      else
        Inr (ord\<lparr> o_project_id := (case ou_project_id data of None \<Rightarrow> o_project_id ord | Some v \<Rightarrow> v),
                  o_spool_id := (case ou_spool_id data of None \<Rightarrow> o_spool_id ord | Some v \<Rightarrow> v),
                  filament_grams_snapshot :=
                    (case ou_project_id data of
                       None \<Rightarrow> filament_grams_snapshot ord
                     | Some v \<Rightarrow>
                         (case (if truthy_int v then (case v of None \<Rightarrow> None | Some pid \<Rightarrow> projects d pid)
                                else None) of
                            None \<Rightarrow> None | Some p \<Rightarrow> filament_grams p)),
                  print_time_hours_snapshot :=
                    (case ou_project_id data of
                       None \<Rightarrow> print_time_hours_snapshot ord
                     | Some v \<Rightarrow>
                         (case (if truthy_int v then (case v of None \<Rightarrow> None | Some pid \<Rightarrow> projects d pid)
                                else None) of
                            None \<Rightarrow> None | Some p \<Rightarrow> print_time_hours p)) \<rparr>))"

text \<open>The replacement of the order's spools (Issue 76).\<close>

definition replace_order_spools :: "db \<Rightarrow> order \<Rightarrow> order_update \<Rightarrow> error + order_spool list" where
  "replace_order_spools d ord data =
     (case ou_spools data of
        None \<Rightarrow> Inr (order_spools ord)
      | Some spools_upd \<Rightarrow>
          if spools_upd \<noteq> []
             \<and> length (map osi_position spools_upd) \<noteq> card (set (map osi_position spools_upd))
          then Inl (Bad_request ''Duplicate spool positions are not allowed'')
          else make_order_spools (spools d) spools_upd)"

text \<open>The replacement of the order's hardware lines: when the old status is
  \<open>finished\<close> the old lines are given back first; the result is the hardware table and
  the lines the order has afterwards.\<close>

definition replace_order_hardware ::
  "db \<Rightarrow> order \<Rightarrow> order_update \<Rightarrow> error + (int \<rightharpoonup> hardware_item) \<times> order_hardware list" where
  "replace_order_hardware d ord data =
     (case ou_hardware_items data of
        None \<Rightarrow> Inr (hardware_items d, order_hardware ord)
      | Some hw_inputs \<Rightarrow>
          (let hw1 = (if o_status ord = ''finished''
                      then restore_replaced_hardware (hardware_items d) (order_hardware ord)
                      else hardware_items d)
           in case make_order_hardware hw1 hw_inputs of
                Inl e \<Rightarrow> Inl e
              | Inr rows \<Rightarrow> Inr (hw1, rows)))"

text \<open>The stock step of \<open>update_order\<close> on the lines the order has after the
  replacement.\<close>

definition order_stock_step ::
  "string \<Rightarrow> string option \<Rightarrow> bool \<Rightarrow> (int \<rightharpoonup> hardware_item) \<Rightarrow> order_hardware list
     \<Rightarrow> error + (int \<rightharpoonup> hardware_item)" where
  "order_stock_step old_status new_status replaced hw lines =
     (if needs_deduct old_status new_status replaced then deduct_order_hardware hw lines
      else if needs_restore old_status new_status replaced then Inr (restore_order_hardware hw lines)
      else Inr hw)"

definition update_order :: "db \<Rightarrow> int \<Rightarrow> order_update \<Rightarrow> error + db" where
  "update_order d order_id data =
     (case orders d order_id of
        None \<Rightarrow> Inl (Not_found ''Order not found'')
      | Some ord \<Rightarrow>
          (let old_status = o_status ord;
               new_status = (case ou_status data of None \<Rightarrow> Some (o_status ord) | Some v \<Rightarrow> v)
           in case apply_order_update d ord data of
                Inl e \<Rightarrow> Inl e
              | Inr ord1 \<Rightarrow>
                  (case replace_order_spools d ord data of
                     Inl e \<Rightarrow> Inl e
                   | Inr spool_rows \<Rightarrow>
                       (case replace_order_hardware d ord data of
                          Inl e \<Rightarrow> Inl e
                        | Inr (hw1, lines) \<Rightarrow>
                            (case order_stock_step old_status new_status
                                    (ou_hardware_items data \<noteq> None) hw1 lines of
                               Inl e \<Rightarrow> Inl e
                             | Inr hw2 \<Rightarrow>
                                 (case new_status of
                                    None \<Rightarrow> Inl Integrity_error
                                  | Some status \<Rightarrow>
                                      commit_order (d\<lparr>hardware_items := hw2\<rparr>) order_id
                                        (ord1\<lparr> o_status := status, order_spools := spool_rows,
                                               order_hardware := lines \<rparr>)))))))"

text \<open>\<open>delete_order\<close>. The order's lines and spools go with it (\<open>delete-orphan\<close>); the
  print jobs that point to it get \<open>order_id = NULL\<close>.\<close>

definition delete_order :: "db \<Rightarrow> int \<Rightarrow> error + db" where
  "delete_order d order_id =
     (case orders d order_id of
        None \<Rightarrow> Inl (Not_found ''Order not found'')
      | Some ord \<Rightarrow>
          Inr (d\<lparr> hardware_items :=
                    (if o_status ord = ''finished''
                     then restore_order_hardware (hardware_items d) (order_hardware ord)
                     else hardware_items d),
                  orders := (orders d)(order_id := None),
                  print_jobs :=
                    (\<lambda>j. case print_jobs d j of
                            None \<Rightarrow> None
                          | Some job \<Rightarrow>
                              Some (if pj_order_id job = Some order_id
                                    then job\<lparr>pj_order_id := None\<rparr> else job)) \<rparr>))"

subsection \<open>routers/product\_on\_hand.py\<close>

record product_on_hand_create =
  pc_project_id :: "int option"
  pc_print_job_id :: int
  pc_name :: string
  pc_status :: string
  pc_location :: "string option"
  pc_notes :: "string option"


text \<open>\<open>db.commit()\<close> for a product: the foreign keys to the project and the print job.\<close>

definition product_constraints :: "db \<Rightarrow> product_on_hand \<Rightarrow> bool" where
  "product_constraints d product =
     (fk_present (projects d) (poh_project_id product)
      \<and> print_jobs d (poh_print_job_id product) \<noteq> None)"

definition create_product_on_hand :: "db \<Rightarrow> int \<Rightarrow> product_on_hand_create \<Rightarrow> error + db" where
  "create_product_on_hand d new_id data =
     (case print_jobs d (pc_print_job_id data) of
        None \<Rightarrow> Inl (Not_found ''Print job not found'')
      | Some print_job \<Rightarrow>
          if pj_status print_job \<noteq> ''completed''
          then Inl (Bad_request ''Only completed print jobs can become products on hand'')
          else if truthy_int (pc_project_id data)
                  \<and> (case pc_project_id data of None \<Rightarrow> None | Some pid \<Rightarrow> projects d pid) = None
          then Inl (Not_found ''Project not found'')
          else
            (let has_hardware =
                   (truthy_int (pc_project_id data)
                    \<and> (case (case pc_project_id data of None \<Rightarrow> None | Some pid \<Rightarrow> projects d pid) of
                          None \<Rightarrow> False | Some project \<Rightarrow> hardware project \<noteq> []));
                 product = \<lparr> poh_project_id = pc_project_id data,
                             poh_print_job_id = pc_print_job_id data,
                             poh_name = pc_name data,
                             poh_status = pc_status data,
                             poh_location = pc_location data,
                             poh_notes = pc_notes data \<rparr>
             in if pc_status data = ''completed'' \<and> \<not> truthy_str (pc_location data)
                then Inl (Bad_request ''Location is required when status is completed'')
                else if has_hardware \<and> pc_status data = ''completed'' \<and> \<not> truthy_str (pc_location data)
                then Inl (Bad_request ''Location is required when marking as completed'')
                else if \<not> has_hardware \<and> pc_status data \<noteq> ''completed''
                then Inl (Bad_request ''Products without hardware should be marked as completed'')
                else if \<not> has_hardware \<and> \<not> truthy_str (pc_location data)
                then Inl (Bad_request ''Location is required for products without hardware'')
                else if product_constraints d product
                then Inr (d\<lparr>products_on_hand := AList.update new_id product (products_on_hand d)\<rparr>)
                else Inl Integrity_error))"

text \<open>The first loop over \<open>project.hardware\<close> in \<open>update_product_on_hand\<close> and
  \<open>convert_to_order\<close>: the first line that asks for more than is in stock raises.
  \<open>ph.hardware_item\<close> of a line whose item has no row is \<open>None\<close>, and reading its stock
  is an \<open>AttributeError\<close>.\<close>

fun check_project_hardware :: "(int \<rightharpoonup> hardware_item) \<Rightarrow> project_hardware list \<Rightarrow> error option" where
  "check_project_hardware hw [] = None"
| "check_project_hardware hw (ph # rest) =
     (case hw (ph_hardware_item_id ph) of
        None \<Rightarrow> Some Attribute_error
      | Some hardware_item \<Rightarrow>
          if quantity_in_stock hardware_item < ph_quantity ph
          then Some (Insufficient_stock (hw_name hardware_item)
                       (quantity_in_stock hardware_item) (ph_quantity ph))
          else check_project_hardware hw rest)"






text \<open>The second loop of \<open>convert_to_order\<close>: every line of the project becomes an
  \<open>OrderHardware\<close> row with the item's \<open>cost_per_item\<close> as snapshot, and the stock is
  deducted in the same pass when \<open>deduct\<close> (\<open>product.status != "completed"\<close>) holds.\<close>

fun copy_project_hardware ::
  "bool \<Rightarrow> (int \<rightharpoonup> hardware_item) \<Rightarrow> project_hardware list
     \<Rightarrow> error + (int \<rightharpoonup> hardware_item) \<times> order_hardware list" where
  "copy_project_hardware deduct hw [] = Inr (hw, [])"
| "copy_project_hardware deduct hw (ph # rest) =
     (case hw (ph_hardware_item_id ph) of
        None \<Rightarrow> Inl Attribute_error
      | Some hardware_item \<Rightarrow>
          (case copy_project_hardware deduct
                  (if deduct
                   then hw(ph_hardware_item_id ph \<mapsto>
                          hardware_item\<lparr>quantity_in_stock :=
                            quantity_in_stock hardware_item - ph_quantity ph\<rparr>)
                   else hw)
                  rest of
             Inl e \<Rightarrow> Inl e
           | Inr (hw', rows) \<Rightarrow>
               Inr (hw',
                    \<lparr> oh_hardware_item_id = Some (ph_hardware_item_id ph),
                      oh_quantity = ph_quantity ph,
                      unit_cost_snapshot = Some (cost_per_item hardware_item),
                      oh_is_one_off = False,
                      oh_one_off_name = None,
                      oh_one_off_cost = None \<rparr> # rows)))"

text \<open>The hardware step of \<open>convert_to_order\<close> for the product's project (\<open>None\<close> when
  the product has no project or the project has no row).\<close>

definition convert_hardware ::
  "db \<Rightarrow> product_on_hand \<Rightarrow> error + (int \<rightharpoonup> hardware_item) \<times> order_hardware list" where
  "convert_hardware d product =
     (case (case poh_project_id product of None \<Rightarrow> None | Some pid \<Rightarrow> projects d pid) of
        None \<Rightarrow> Inr (hardware_items d, [])
      | Some project \<Rightarrow>
          if hardware project = [] then Inr (hardware_items d, [])
          else
            (case (if poh_status product \<noteq> ''completed''
                   then check_project_hardware (hardware_items d) (hardware project)
                   else None) of
               Some e \<Rightarrow> Inl e
             | None \<Rightarrow>
                 copy_project_hardware (poh_status product \<noteq> ''completed'')
                   (hardware_items d) (hardware project)))"

text \<open>\<open>convert_to_order\<close>; \<open>new_order_id\<close> is the key the flush gives the order. The
  customer fields of the request are only copied to columns left out of the model.\<close>

definition convert_to_order :: "db \<Rightarrow> int \<Rightarrow> int \<Rightarrow> error + db" where
  "convert_to_order d product_id new_order_id =
     (case map_of (products_on_hand d) product_id of
        None \<Rightarrow> Inl (Not_found ''Product not found'')
      | Some product \<Rightarrow>
          (case print_jobs d (poh_print_job_id product) of
             None \<Rightarrow> Inl (Bad_request ''Print job not found'')
           | Some print_job \<Rightarrow>
               if pj_order_id print_job \<noteq> None
               then Inl (Conflict ''This product has already been converted to an order'')
               else
                 (case convert_hardware d product of
                    Inl e \<Rightarrow> Inl e
                  | Inr (hw, rows) \<Rightarrow>
                      (let ord = \<lparr> o_project_id = poh_project_id product,
                                   o_spool_id = pj_spool_id print_job,
                                   o_status = ''sold'',
                                   filament_grams_snapshot = None,
                                   print_time_hours_snapshot = None,
                                   order_spools = [],
                                   order_hardware = rows \<rparr>
                       in if order_constraints d ord
                          then Inr (d\<lparr> hardware_items := hw,
                                       orders := (orders d)(new_order_id \<mapsto> ord),
                                       print_jobs := (print_jobs d)(poh_print_job_id product \<mapsto>
                                                       print_job\<lparr>pj_order_id := Some new_order_id\<rparr>),
                                       products_on_hand :=
                                         AList.delete product_id (products_on_hand d) \<rparr>)
                          else Inl Integrity_error))))"

section \<open>Notions used to state the properties\<close>

text \<open>The grams a list of \<open>(spool_id, grams)\<close> pairs asks of one spool.\<close>

definition grams_for :: "int \<Rightarrow> (int \<times> real) list \<Rightarrow> real" where
  "grams_for sid usages = sum_list (map snd (filter (\<lambda>u. fst u = sid) usages))"

definition add_grams :: "real \<Rightarrow> spool \<Rightarrow> spool" where
  "add_grams g s = s\<lparr>remaining_weight_g := remaining_weight_g s + g\<rparr>"




subsection \<open>Example data\<close>

definition ex_spool :: "real \<Rightarrow> spool" where
  "ex_spool r =
     \<lparr> tracking_id = None, color_name = ''red'', filament_type_name = ''PLA'',
       manufacturer_name = None, total_weight_g = 1000, remaining_weight_g = r,
       purchase_price = 20 \<rparr>"

definition ex_settings :: "bool \<Rightarrow> real \<Rightarrow> app_settings" where
  "ex_settings prevent reserve =
     \<lparr> currency_symbol = ''$'', electricity_rate_kwh = 12 / 100, printer_wattage = 200,
       hourly_rate = 2, machine_depreciation_rate = 1 / 2, profit_margin_percent = 5,
       fixed_fee_per_order = 5, enable_spool_negative_prevention = prevent,
       minimum_spool_reserve_g = reserve \<rparr>"

definition empty_db :: db where
  "empty_db =
     \<lparr> settings_row = Some (ex_settings True 5), spools = Map.empty,
       hardware_items = Map.empty, projects = Map.empty, print_jobs = Map.empty,
       orders = Map.empty, products_on_hand = [] \<rparr>"

text \<open>One spool with 10 g left, reserve 5 g, prevention on.\<close>

definition reserve_db :: db where
  "reserve_db = empty_db\<lparr>spools := [1 \<mapsto> ex_spool 10]\<rparr>"








text \<open>A completed legacy job that used 30 g of spool 1, which has 70 g left; update
  bodies that hold a status and nothing else.\<close>

definition legacy_row :: "string \<Rightarrow> print_job" where
  "legacy_row status =
     \<lparr> pj_spool_id = Some 1, pj_project_id = None, pj_order_id = None, pj_name = ''clip'',
       pj_filament_used_g = Some 30, pj_status = status, print_job_spools = [] \<rparr>"

definition legacy_db :: "string \<Rightarrow> db" where
  "legacy_db status =
     empty_db\<lparr>spools := [1 \<mapsto> ex_spool 70], print_jobs := [3 \<mapsto> legacy_row status]\<rparr>"

definition status_only :: "string \<Rightarrow> print_job_update" where
  "status_only status =
     \<lparr> pju_spool_id = None, pju_project_id = None, pju_order_id = None, pju_name = None,
       pju_filament_used_g = None, pju_status = Some (Some status), pju_spools = None,
       pju_force = False \<rparr>"

subsection \<open>Orders and hardware\<close>

text \<open>The quantity the tracked lines of an order hold of one hardware item, and a change
  of an item's stock.\<close>

definition line_total :: "int \<Rightarrow> order_hardware list \<Rightarrow> int" where
  "line_total i lines =
     sum_list (map oh_quantity
       (filter (\<lambda>oh. \<not> oh_is_one_off oh \<and> oh_hardware_item_id oh = Some i) lines))"

definition add_stock :: "int \<Rightarrow> hardware_item \<Rightarrow> hardware_item" where
  "add_stock n h = h\<lparr>quantity_in_stock := quantity_in_stock h + n\<rparr>"

text \<open>The status an update body leaves an order with.\<close>

definition status_after :: "order \<Rightarrow> order_update \<Rightarrow> string" where
  "status_after ord upd = (case ou_status upd of Some (Some s) \<Rightarrow> s | _ \<Rightarrow> o_status ord)"

text \<open>A hardware item with a given stock, an order with one line of three of it, the
  requests that create such an order and that change only its status.\<close>

definition ex_item :: "int \<Rightarrow> hardware_item" where
  "ex_item n = \<lparr> hw_name = ''magnet'', hw_purchase_price = 5, quantity_purchased = 10,
                 quantity_in_stock = n \<rparr>"

definition ex_line :: order_hardware where
  "ex_line = \<lparr> oh_hardware_item_id = Some 1, oh_quantity = 3, unit_cost_snapshot = Some (1 / 2),
               oh_is_one_off = False, oh_one_off_name = None, oh_one_off_cost = None \<rparr>"

definition ex_line_input :: order_hardware_input where
  "ex_line_input = \<lparr> ohi_hardware_item_id = Some 1, ohi_quantity = 3, ohi_is_one_off = False,
                     ohi_one_off_name = None, ohi_one_off_cost = None \<rparr>"

definition ex_order :: "string \<Rightarrow> order" where
  "ex_order status =
     \<lparr> o_project_id = None, o_spool_id = None, o_status = status,
       filament_grams_snapshot = None, print_time_hours_snapshot = None,
       order_spools = [], order_hardware = [ex_line] \<rparr>"

definition stock_db :: "int \<Rightarrow> db" where
  "stock_db n = empty_db\<lparr>hardware_items := [1 \<mapsto> ex_item n]\<rparr>"

definition order_db :: "string \<Rightarrow> int \<Rightarrow> db" where
  "order_db status n = (stock_db n)\<lparr>orders := [5 \<mapsto> ex_order status]\<rparr>"

definition order_request :: "string \<Rightarrow> order_create" where
  "order_request status =
     \<lparr> oc_project_id = None, oc_spool_id = None, oc_status = status,
       oc_hardware_items = [ex_line_input], oc_spools = [] \<rparr>"

definition order_status_only :: "string \<Rightarrow> order_update" where
  "order_status_only status =
     \<lparr> ou_project_id = None, ou_spool_id = None, ou_status = Some (Some status),
       ou_hardware_items = None, ou_spools = None \<rparr>"

definition order_status_and_lines :: "string \<Rightarrow> order_update" where
  "order_status_and_lines status =
     \<lparr> ou_project_id = None, ou_spool_id = None, ou_status = Some (Some status),
       ou_hardware_items = Some [ex_line_input], ou_spools = None \<rparr>"

subsection \<open>Products on hand\<close>

text \<open>The quantity the lines of a project require of one hardware item; the lines of the
  project of a product; the order line that \<open>convert_to_order\<close> copies from a project
  line.\<close>

definition project_total :: "int \<Rightarrow> project_hardware list \<Rightarrow> int" where
  "project_total i lines =
     sum_list (map ph_quantity (filter (\<lambda>ph. ph_hardware_item_id ph = i) lines))"



text \<open>A project that needs three magnets, a product made from the legacy job, and the
  requests on it.\<close>

definition ex_project :: project where
  "ex_project = \<lparr> filament_grams = None, print_time_hours = None,
                  hardware = [\<lparr>ph_hardware_item_id = 1, ph_quantity = 3\<rparr>] \<rparr>"

definition ex_product :: "string \<Rightarrow> product_on_hand" where
  "ex_product status =
     \<lparr> poh_project_id = Some 2, poh_print_job_id = 3, poh_name = ''lamp'', poh_status = status,
       poh_location = Some ''shelf'', poh_notes = None \<rparr>"

definition workshop_db :: "int \<Rightarrow> db" where
  "workshop_db n =
     (legacy_db ''completed'')\<lparr>hardware_items := [1 \<mapsto> ex_item n], projects := [2 \<mapsto> ex_project]\<rparr>"

definition product_db :: "int \<Rightarrow> string \<Rightarrow> db" where
  "product_db n status = (workshop_db n)\<lparr>products_on_hand := [(4, ex_product status)]\<rparr>"

definition product_request :: "string \<Rightarrow> product_on_hand_create" where
  "product_request status =
     \<lparr> pc_project_id = Some 2, pc_print_job_id = 3, pc_name = ''lamp'', pc_status = status,
       pc_location = Some ''shelf'', pc_notes = None \<rparr>"



definition converted_db :: db where
  "converted_db =
     (product_db 7 ''completed'')\<lparr>print_jobs := [3 \<mapsto> (legacy_row ''completed'')\<lparr>pj_order_id := Some 9\<rparr>]\<rparr>"

section \<open>Properties\<close>

subsection \<open>Rounding\<close>




subsection \<open>The validator\<close>


text \<open>
  Claim C2, as the code has it. With prevention on and a reserve of 5 g, asking 6 g of a
  spool with 10 g left is invalid with exactly one shortage. The check that raises it
  works on the usable weight \<open>10 - 5 = 5\<close> and on \<open>5 - 6 = -1\<close>, which is negative. The
  shortage that is returned reports the current weight 10, the requested weight 6, the
  resulting weight \<open>10 - 6 = 4\<close> (the remaining weight minus the request, the reserve
  not subtracted), a \<open>shortage_g\<close> of \<open>max 0 (6 - 10) = 0\<close> and \<open>within_reserve = True\<close>.
\<close>

theorem validate_reserve_shortage:
  assumes "settings_row d = Some st" and "enable_spool_negative_prevention st"
    and "minimum_spool_reserve_g st = 5" and "spools d sid = Some sp"
    and "remaining_weight_g sp = 10"
  shows "validate_spool_inventory d [(sid, 6)]
           = \<lparr> is_valid = False, shortages = [make_shortage sid sp 6] \<rparr>
         \<and> usable_weight sp (reserve_setting d) = 5
         \<and> resulting_weight sp (reserve_setting d) 6 = - 1
         \<and> current_weight_g (make_shortage sid sp 6) = 10
         \<and> requested_weight_g (make_shortage sid sp 6) = 6
         \<and> resulting_weight_g (make_shortage sid sp 6) = 4
         \<and> shortage_g (make_shortage sid sp 6) = 0
         \<and> within_reserve (make_shortage sid sp 6)"
  using assms by (simp add: validate_spool_inventory_def prevention_setting_def reserve_setting_def
      resulting_weight_def usable_weight_def make_shortage_def)

theorem validate_reserve_shortage_witness:
  "validate_spool_inventory reserve_db [(1, 6)]
     = \<lparr> is_valid = False, shortages = [make_shortage 1 (ex_spool 10) 6] \<rparr>
   \<and> usable_weight (ex_spool 10) (reserve_setting reserve_db) = 5
   \<and> resulting_weight (ex_spool 10) (reserve_setting reserve_db) 6 = - 1
   \<and> resulting_weight_g (make_shortage 1 (ex_spool 10) 6) = 4
   \<and> within_reserve (make_shortage 1 (ex_spool 10) 6)"
proof -
  have "settings_row reserve_db = Some (ex_settings True 5)"
    and "enable_spool_negative_prevention (ex_settings True 5)"
    and "minimum_spool_reserve_g (ex_settings True 5) = 5"
    and "spools reserve_db 1 = Some (ex_spool 10)"
    and "remaining_weight_g (ex_spool 10) = 10"
    by (simp_all add: ex_spool_def ex_settings_def empty_db_def reserve_db_def)
  from validate_reserve_shortage [OF this] show ?thesis by simp
qed

text \<open>The claim as written fails: the one shortage returned for the request of C2 has the
  resulting weight 4, not \<open>-1\<close>.\<close>

theorem shortage_resulting_weight_counterexample:
  "shortages (validate_spool_inventory reserve_db [(1, 6)]) = [make_shortage 1 (ex_spool 10) 6]
   \<and> resulting_weight_g (make_shortage 1 (ex_spool 10) 6) = 4
   \<and> resulting_weight_g (make_shortage 1 (ex_spool 10) 6) \<noteq> - 1"
  by (simp add: validate_spool_inventory_def prevention_setting_def reserve_setting_def
      resulting_weight_def usable_weight_def make_shortage_def
      ex_spool_def ex_settings_def empty_db_def reserve_db_def)



subsection \<open>The cost calculator\<close>



subsection \<open>Print jobs: deduction and restoration of filament\<close>

lemma grams_for_Nil [simp]: "grams_for sid [] = 0"
  by (simp add: grams_for_def)

lemma grams_for_Cons [simp]:
  "grams_for sid ((i, g) # us) = (if i = sid then g + grams_for sid us else grams_for sid us)"
  by (simp add: grams_for_def)

lemma add_grams_0 [simp]: "add_grams 0 s = s"
  by (simp add: add_grams_def)



lemma deduct_spools_None:
  "sp sid = None \<Longrightarrow> deduct_spools sp prevent us sid = None"
proof (induction us arbitrary: sp)
  case Nil
  then show ?case by simp
next
  case (Cons u us)
  obtain i g where u: "u = (i, g)" by (cases u)
  show ?case
  proof (cases "sp i")
    case None
    then show ?thesis using Cons u by simp
  next
    case (Some t)
    then have ne: "i \<noteq> sid" using Cons.prems by auto
    have "deduct_spools sp prevent (u # us) sid
            = deduct_spools (sp(i \<mapsto> deduct_spool t g prevent)) prevent us sid"
      using Some u by simp
    also have "\<dots> = None"
      by (rule Cons.IH) (use ne Cons.prems in auto)
    finally show ?thesis .
  qed
qed

















lemma row_usages_of_rows [simp]: "row_usages_of (spool_rows_of es) = spool_usages_of es"
  by (simp add: row_usages_of_def spool_rows_of_def spool_usages_of_def)

lemma spool_rows_of_Nil [simp]: "spool_rows_of es = [] \<longleftrightarrow> es = []"
  by (simp add: spool_rows_of_def)









subsection \<open>Print jobs: updates that carry no amounts\<close>

text \<open>
  Claim C10. An update of a print job that succeeds and whose body holds neither a
  \<open>spools\<close> list nor a \<open>filament_used_g\<close> value leaves the spool table as it is, and the
  job gets the status of the body (or keeps its own): so a completed job set to
  \<open>failed\<close> or \<open>cancelled\<close> gets nothing back, and a failed or cancelled job set to
  \<open>completed\<close> deducts nothing.
\<close>

theorem update_without_amounts_keeps_spools:
  assumes ok: "update_print_job d job_id data = Inr d'"
    and no_spools: "\<forall>l. pju_spools data \<noteq> Some (Some l)"
    and no_grams: "\<forall>g. pju_filament_used_g data \<noteq> Some (Some g)"
  shows "spools d' = spools d
         \<and> (\<exists>job job'. print_jobs d job_id = Some job \<and> print_jobs d' job_id = Some job'
              \<and> pj_status job' = (case pju_status data of Some (Some s) \<Rightarrow> s | _ \<Rightarrow> pj_status job))"
proof -
  from ok obtain job where job: "print_jobs d job_id = Some job"
    by (auto simp: update_print_job_def split: option.splits)
  have step: "(case pju_spools data of
                   Some (Some spools_upd) \<Rightarrow> replace_print_job_spools d job data spools_upd
                 | _ \<Rightarrow>
                     if pju_filament_used_g data \<noteq> None \<and> pj_status job = ''completed''
                        \<and> print_job_spools job = []
                     then legacy_filament_update d job data
                     else Inr (spools d, print_job_spools job))
              = Inr (spools d, print_job_spools job)
            \<or> (\<exists>e. (case pju_spools data of
                   Some (Some spools_upd) \<Rightarrow> replace_print_job_spools d job data spools_upd
                 | _ \<Rightarrow>
                     if pju_filament_used_g data \<noteq> None \<and> pj_status job = ''completed''
                        \<and> print_job_spools job = []
                     then legacy_filament_update d job data
                     else Inr (spools d, print_job_spools job)) = Inl e)"
    using no_spools no_grams
    by (auto simp: legacy_filament_update_def split: option.splits)
  from ok job step show ?thesis
    by (auto simp: update_print_job_def commit_print_job_def apply_print_job_update_def
        split: option.splits if_splits)
qed

theorem update_without_amounts_keeps_spools_witness:
  "update_print_job (legacy_db ''completed'') 3 (status_only ''failed'') = Inr (legacy_db ''failed'')
   \<and> update_print_job (legacy_db ''failed'') 3 (status_only ''completed'')
       = Inr (legacy_db ''completed'')
   \<and> spools (legacy_db ''failed'') = spools (legacy_db ''completed'')
   \<and> spools (legacy_db ''completed'') 1 = Some (ex_spool 70)
   \<and> map_option pj_status (print_jobs (legacy_db ''failed'') 3) = Some ''failed''"
proof -
  have a: "update_print_job (legacy_db ''completed'') 3 (status_only ''failed'')
             = Inr (legacy_db ''failed'')"
    by (simp add: update_print_job_def commit_print_job_def print_job_constraints_def
        fk_present_def apply_print_job_update_def legacy_db_def legacy_row_def status_only_def
        empty_db_def)
  have b: "update_print_job (legacy_db ''failed'') 3 (status_only ''completed'')
             = Inr (legacy_db ''completed'')"
    by (simp add: update_print_job_def commit_print_job_def print_job_constraints_def
        fk_present_def apply_print_job_update_def legacy_db_def legacy_row_def status_only_def
        empty_db_def)
  have h: "\<forall>l. pju_spools (status_only ''failed'') \<noteq> Some (Some l)"
    "\<forall>g. pju_filament_used_g (status_only ''failed'') \<noteq> Some (Some g)"
    by (simp_all add: status_only_def)
  from update_without_amounts_keeps_spools [OF a h]
  have "spools (legacy_db ''failed'') = spools (legacy_db ''completed'')" by simp
  then show ?thesis using a b by (simp add: legacy_db_def legacy_row_def)
qed

subsection \<open>Orders: hardware stock\<close>

lemma line_total_Nil [simp]: "line_total i [] = 0"
  by (simp add: line_total_def)

lemma line_total_Cons [simp]:
  "line_total i (oh # rest) =
     (if \<not> oh_is_one_off oh \<and> oh_hardware_item_id oh = Some i
      then oh_quantity oh + line_total i rest else line_total i rest)"
  by (simp add: line_total_def)

lemma add_stock_0 [simp]: "add_stock 0 h = h"
  by (simp add: add_stock_def)

lemma add_stock_add [simp]: "add_stock m (add_stock n h) = add_stock (n + m) h"
  by (simp add: add_stock_def)

lemma map_option_add_stock_0 [simp]: "map_option (add_stock 0) x = x"
  by (cases x) simp_all

lemma restore_order_hardware_lookup:
  "restore_order_hardware hw lines i = map_option (add_stock (line_total i lines)) (hw i)"
proof (induction lines arbitrary: hw)
  case Nil
  show ?case by (cases "hw i") simp_all
next
  case (Cons oh rest)
  show ?case
  proof (cases "\<not> oh_is_one_off oh \<and> (\<exists>j h. oh_hardware_item_id oh = Some j \<and> hw j = Some h)")
    case True
    then obtain j h where j: "\<not> oh_is_one_off oh" "oh_hardware_item_id oh = Some j" "hw j = Some h"
      by blast
    let ?hw = "hw(j \<mapsto> h\<lparr>quantity_in_stock := quantity_in_stock h + oh_quantity oh\<rparr>)"
    have "restore_order_hardware hw (oh # rest) i = restore_order_hardware ?hw rest i"
      using j by simp
    also have "\<dots> = map_option (add_stock (line_total i rest)) (?hw i)"
      by (rule Cons.IH)
    also have "\<dots> = map_option (add_stock (line_total i (oh # rest))) (hw i)"
      using j by (cases "j = i") (simp_all add: add_stock_def add.commute)
    finally show ?thesis .
  next
    case False
    then have "restore_order_hardware hw (oh # rest) i = restore_order_hardware hw rest i"
      by (auto split: option.splits)
    also have "\<dots> = map_option (add_stock (line_total i rest)) (hw i)"
      by (rule Cons.IH)
    also have "\<dots> = map_option (add_stock (line_total i (oh # rest))) (hw i)"
      using False by (cases "hw i") auto
    finally show ?thesis .
  qed
qed

lemma deduct_order_hardware_lookup:
  "deduct_order_hardware hw lines = Inr hw' \<Longrightarrow>
     hw' i = map_option (add_stock (- line_total i lines)) (hw i)"
proof (induction lines arbitrary: hw)
  case Nil
  then show ?case by (cases "hw i") simp_all
next
  case (Cons oh rest)
  show ?case
  proof (cases "\<not> oh_is_one_off oh \<and> (\<exists>j h. oh_hardware_item_id oh = Some j \<and> hw j = Some h)")
    case True
    then obtain j h where j: "\<not> oh_is_one_off oh" "oh_hardware_item_id oh = Some j" "hw j = Some h"
      by blast
    let ?hw = "hw(j \<mapsto> h\<lparr>quantity_in_stock := quantity_in_stock h - oh_quantity oh\<rparr>)"
    from Cons.prems j have "deduct_order_hardware ?hw rest = Inr hw'"
      by (simp split: if_splits)
    then have "hw' i = map_option (add_stock (- line_total i rest)) (?hw i)"
      by (rule Cons.IH)
    also have "\<dots> = map_option (add_stock (- line_total i (oh # rest))) (hw i)"
      using j by (cases "j = i") (simp_all add: add_stock_def)
    finally show ?thesis .
  next
    case False
    with Cons.prems have "deduct_order_hardware hw rest = Inr hw'"
      by (auto split: option.splits)
    then have "hw' i = map_option (add_stock (- line_total i rest)) (hw i)"
      by (rule Cons.IH)
    also have "\<dots> = map_option (add_stock (- line_total i (oh # rest))) (hw i)"
      using False by (cases "hw i") auto
    finally show ?thesis .
  qed
qed

lemma deduct_after_restore:
  assumes "deduct_order_hardware (restore_order_hardware hw lines) lines = Inr hw'"
  shows "hw' = hw"
proof
  fix i
  from deduct_order_hardware_lookup [OF assms, of i]
  show "hw' i = hw i"
    by (cases "hw i") (simp_all add: restore_order_hardware_lookup)
qed

lemma restore_after_deduct:
  assumes "deduct_order_hardware hw lines = Inr hw'"
  shows "restore_order_hardware hw' lines = hw"
proof
  fix i
  from deduct_order_hardware_lookup [OF assms, of i]
  show "restore_order_hardware hw' lines i = hw i"
    by (cases "hw i") (simp_all add: restore_order_hardware_lookup)
qed

lemma commit_order_result:
  "commit_order d order_id ord = Inr d' \<Longrightarrow>
     d' = d\<lparr>orders := (orders d)(order_id \<mapsto> ord)\<rparr>"
  by (auto simp: commit_order_def split: if_splits)

lemma create_order_hardware:
  "create_order d new_id data = Inr d' \<Longrightarrow> hardware_items d' = hardware_items d"
  by (auto simp: create_order_def Let_def split: if_splits sum.splits dest!: commit_order_result)

lemma apply_order_update_lines:
  "apply_order_update d ord upd = Inr ord1 \<Longrightarrow> o_status ord1 = o_status ord"
  by (auto simp: apply_order_update_def split: if_splits)

text \<open>What a successful update is made of.\<close>

lemma update_order_steps:
  assumes "update_order d oid upd = Inr d'" and "orders d oid = Some ord"
  shows "\<exists>ord' hw1 lines.
           replace_order_hardware d ord upd = Inr (hw1, lines)
           \<and> order_stock_step (o_status ord) (Some (status_after ord upd))
                (ou_hardware_items upd \<noteq> None) hw1 lines = Inr (hardware_items d')
           \<and> orders d' oid = Some ord' \<and> o_status ord' = status_after ord upd
           \<and> order_hardware ord' = lines"
  using assms
  by (auto simp: update_order_def Let_def status_after_def
      split: sum.splits option.splits prod.splits dest!: commit_order_result)

lemma replace_order_hardware_cases:
  assumes "replace_order_hardware d ord upd = Inr (hw1, lines)"
  shows "hw1 = (if ou_hardware_items upd \<noteq> None \<and> o_status ord = ''finished''
                then restore_replaced_hardware (hardware_items d) (order_hardware ord)
                else hardware_items d)"
    and "ou_hardware_items upd = None \<Longrightarrow> lines = order_hardware ord"
  using assms
  by (auto simp: replace_order_hardware_def Let_def split: option.splits sum.splits if_splits)

text \<open>
  Claim C5, as the code has it. On every update of an order that succeeds, with
  \<open>replaced\<close> for "the body holds a list of hardware lines":
  \<^item> the lines the order has after the update are deducted if and only if the new status
    is \<open>finished\<close> and (the old status was not \<open>finished\<close> or \<open>replaced\<close>); a line that
    asks for more than is in stock makes the update fail instead;
  \<^item> the lines the order had before the update are given back if and only if the old
    status was \<open>finished\<close> and (the new status is not \<open>finished\<close> or \<open>replaced\<close>): by the
    status step when the lines are kept, by the replacement itself when they are replaced.
  Hence \<open>finished\<close> to \<open>printed\<close> to \<open>finished\<close> with no hardware change leaves the
  hardware table as it was.
\<close>

theorem update_order_stock_effect:
  "(update_order d oid upd = Inr d' \<and> orders d oid = Some ord \<longrightarrow>
      (\<exists>ord'. orders d' oid = Some ord' \<and> o_status ord' = status_after ord upd
         \<and> (ou_hardware_items upd = None \<longrightarrow> order_hardware ord' = order_hardware ord)
         \<and> (let old = o_status ord; new = status_after ord upd;
                 replaced = (ou_hardware_items upd \<noteq> None);
                 restored =
                   (if old = ''finished'' \<and> replaced
                    then restore_replaced_hardware (hardware_items d) (order_hardware ord)
                    else if old = ''finished'' \<and> new \<noteq> ''finished''
                    then restore_order_hardware (hardware_items d) (order_hardware ord)
                    else hardware_items d)
             in if new = ''finished'' \<and> (old \<noteq> ''finished'' \<or> replaced)
                then deduct_order_hardware restored (order_hardware ord') = Inr (hardware_items d')
                else hardware_items d' = restored)))
   \<and> (orders d oid = Some ord \<and> o_status ord = ''finished''
        \<and> ou_status u1 = Some (Some ''printed'') \<and> ou_hardware_items u1 = None
        \<and> ou_status u2 = Some (Some ''finished'') \<and> ou_hardware_items u2 = None
        \<and> update_order d oid u1 = Inr d1 \<and> update_order d1 oid u2 = Inr d2
      \<longrightarrow> hardware_items d2 = hardware_items d)"
proof (intro conjI impI)
  assume a: "update_order d oid upd = Inr d' \<and> orders d oid = Some ord"
  from update_order_steps [of d oid upd d' ord] a obtain ord' hw1 lines where
    r: "replace_order_hardware d ord upd = Inr (hw1, lines)" and
    s: "order_stock_step (o_status ord) (Some (status_after ord upd))
                (ou_hardware_items upd \<noteq> None) hw1 lines = Inr (hardware_items d')" and
    o: "orders d' oid = Some ord'" "o_status ord' = status_after ord upd"
       "order_hardware ord' = lines"
    by blast
  note c = replace_order_hardware_cases [OF r]
  show "\<exists>ord'. orders d' oid = Some ord' \<and> o_status ord' = status_after ord upd
         \<and> (ou_hardware_items upd = None \<longrightarrow> order_hardware ord' = order_hardware ord)
         \<and> (let old = o_status ord; new = status_after ord upd;
                 replaced = (ou_hardware_items upd \<noteq> None);
                 restored =
                   (if old = ''finished'' \<and> replaced
                    then restore_replaced_hardware (hardware_items d) (order_hardware ord)
                    else if old = ''finished'' \<and> new \<noteq> ''finished''
                    then restore_order_hardware (hardware_items d) (order_hardware ord)
                    else hardware_items d)
             in if new = ''finished'' \<and> (old \<noteq> ''finished'' \<or> replaced)
                then deduct_order_hardware restored (order_hardware ord') = Inr (hardware_items d')
                else hardware_items d' = restored)"
    using o s c
    by (auto simp: order_stock_step_def needs_deduct_def needs_restore_def Let_def
        split: if_splits)
next
  assume a: "orders d oid = Some ord \<and> o_status ord = ''finished''
        \<and> ou_status u1 = Some (Some ''printed'') \<and> ou_hardware_items u1 = None
        \<and> ou_status u2 = Some (Some ''finished'') \<and> ou_hardware_items u2 = None
        \<and> update_order d oid u1 = Inr d1 \<and> update_order d1 oid u2 = Inr d2"
  from update_order_steps [of d oid u1 d1 ord] a obtain ord1 hw1 lines1 where
    r1: "replace_order_hardware d ord u1 = Inr (hw1, lines1)" and
    s1: "order_stock_step (o_status ord) (Some (status_after ord u1))
                (ou_hardware_items u1 \<noteq> None) hw1 lines1 = Inr (hardware_items d1)" and
    o1: "orders d1 oid = Some ord1" "o_status ord1 = status_after ord u1"
       "order_hardware ord1 = lines1"
    by blast
  from update_order_steps [of d1 oid u2 d2 ord1] a o1 obtain hw2 lines2 where
    r2: "replace_order_hardware d1 ord1 u2 = Inr (hw2, lines2)" and
    s2: "order_stock_step (o_status ord1) (Some (status_after ord1 u2))
                (ou_hardware_items u2 \<noteq> None) hw2 lines2 = Inr (hardware_items d2)"
    by blast
  from a have st: "status_after ord u1 = ''printed''" "status_after ord1 u2 = ''finished''"
    by (simp_all add: status_after_def)
  from replace_order_hardware_cases [OF r1] a
  have h1: "hw1 = hardware_items d" "lines1 = order_hardware ord" by simp_all
  from replace_order_hardware_cases [OF r2] a o1 h1
  have h2: "hw2 = hardware_items d1" "lines2 = order_hardware ord" by simp_all
  from s1 a st h1 have d1: "hardware_items d1 = restore_order_hardware (hardware_items d) (order_hardware ord)"
    by (simp add: order_stock_step_def needs_deduct_def needs_restore_def)
  from s2 a st o1 h2 have "deduct_order_hardware (hardware_items d1) (order_hardware ord) = Inr (hardware_items d2)"
    by (simp add: order_stock_step_def needs_deduct_def needs_restore_def)
  with d1 show "hardware_items d2 = hardware_items d"
    using deduct_after_restore [of "hardware_items d" "order_hardware ord" "hardware_items d2"] by simp
qed

lemma delete_order_hardware:
  assumes "delete_order d oid = Inr d'" and "orders d oid = Some ord"
  shows "hardware_items d' =
           (if o_status ord = ''finished''
            then restore_order_hardware (hardware_items d) (order_hardware ord)
            else hardware_items d)"
  using assms by (auto simp: delete_order_def)

text \<open>
  Claim C1, as the code has it. Creating an order never changes the hardware table,
  whatever the status of the new order: with a stock of 10 and one line of 3 the stock is
  still 10 after the creation. The stock is deducted when an update brings the order to
  \<open>finished\<close> (10 becomes 7), and deleting the order after that gives the lines back (the
  stock is 10 again).
\<close>

theorem create_order_keeps_stock:
  "(create_order d new_id data = Inr d' \<longrightarrow> hardware_items d' = hardware_items d)
   \<and> (orders d oid = Some ord \<and> o_status ord \<noteq> ''finished''
        \<and> ou_status upd = Some (Some ''finished'')
        \<and> update_order d oid upd = Inr d1 \<and> delete_order d1 oid = Inr d2
      \<longrightarrow> (\<exists>ord1. orders d1 oid = Some ord1 \<and> o_status ord1 = ''finished''
             \<and> (\<forall>i. hardware_items d1 i
                      = map_option (add_stock (- line_total i (order_hardware ord1)))
                          (hardware_items d i)))
          \<and> hardware_items d2 = hardware_items d)"
proof (intro conjI impI)
  assume "create_order d new_id data = Inr d'"
  then show "hardware_items d' = hardware_items d" by (rule create_order_hardware)
next
  assume a: "orders d oid = Some ord \<and> o_status ord \<noteq> ''finished''
        \<and> ou_status upd = Some (Some ''finished'')
        \<and> update_order d oid upd = Inr d1 \<and> delete_order d1 oid = Inr d2"
  from update_order_steps [of d oid upd d1 ord] a obtain ord1 hw1 lines where
    r: "replace_order_hardware d ord upd = Inr (hw1, lines)" and
    s: "order_stock_step (o_status ord) (Some (status_after ord upd))
                (ou_hardware_items upd \<noteq> None) hw1 lines = Inr (hardware_items d1)" and
    o: "orders d1 oid = Some ord1" "o_status ord1 = status_after ord upd"
       "order_hardware ord1 = lines"
    by blast
  from a have st: "status_after ord upd = ''finished''" by (simp add: status_after_def)
  from replace_order_hardware_cases(1) [OF r] a have hw1: "hw1 = hardware_items d" by simp
  from s a st hw1 o have ded:
    "deduct_order_hardware (hardware_items d) (order_hardware ord1) = Inr (hardware_items d1)"
    by (simp add: order_stock_step_def needs_deduct_def)
  have "\<forall>i. hardware_items d1 i
           = map_option (add_stock (- line_total i (order_hardware ord1))) (hardware_items d i)"
    using deduct_order_hardware_lookup [OF ded] by simp
  with o st show "\<exists>ord1. orders d1 oid = Some ord1 \<and> o_status ord1 = ''finished''
             \<and> (\<forall>i. hardware_items d1 i
                      = map_option (add_stock (- line_total i (order_hardware ord1)))
                          (hardware_items d i))"
    by simp
  from a have del: "delete_order d1 oid = Inr d2" by simp
  from delete_order_hardware [OF del o(1)] o st restore_after_deduct [OF ded]
  show "hardware_items d2 = hardware_items d" by simp
qed

lemma ex_create_ordered:
  "create_order (stock_db 10) 5 (order_request ''ordered'') = Inr (order_db ''ordered'' 10)"
  by (simp add: create_order_def commit_order_def order_constraints_def fk_present_def truthy_int_def
      cost_per_item_def py_round_def round_half_even_def Let_def
      ex_item_def ex_line_def ex_order_def stock_db_def order_db_def empty_db_def order_request_def ex_line_input_def)

lemma ex_create_finished:
  "create_order (stock_db 10) 5 (order_request ''finished'') = Inr (order_db ''finished'' 10)"
  by (simp add: create_order_def commit_order_def order_constraints_def fk_present_def truthy_int_def
      cost_per_item_def py_round_def round_half_even_def Let_def
      ex_item_def ex_line_def ex_order_def stock_db_def order_db_def empty_db_def order_request_def ex_line_input_def)

lemma ex_finish:
  "update_order (order_db ''ordered'' 10) 5 (order_status_only ''finished'')
     = Inr (order_db ''finished'' 7)"
  by (simp add: update_order_def commit_order_def order_constraints_def fk_present_def
      apply_order_update_def replace_order_spools_def replace_order_hardware_def
      order_stock_step_def needs_deduct_def needs_restore_def Let_def
      ex_item_def ex_line_def ex_order_def stock_db_def order_db_def empty_db_def order_status_only_def)

lemma ex_delete_finished:
  "delete_order (order_db ''finished'' n) 5 = Inr (stock_db (n + 3))"
  by (simp add: delete_order_def ex_item_def ex_line_def ex_order_def stock_db_def order_db_def empty_db_def)

lemma ex_unfinish:
  "update_order (order_db ''finished'' 7) 5 (order_status_only ''printed'')
     = Inr (order_db ''printed'' 10)"
  by (simp add: update_order_def commit_order_def order_constraints_def fk_present_def
      apply_order_update_def replace_order_spools_def replace_order_hardware_def
      order_stock_step_def needs_deduct_def needs_restore_def Let_def
      ex_item_def ex_line_def ex_order_def stock_db_def order_db_def empty_db_def order_status_only_def)

lemma ex_refinish:
  "update_order (order_db ''printed'' 10) 5 (order_status_only ''finished'')
     = Inr (order_db ''finished'' 7)"
  by (simp add: update_order_def commit_order_def order_constraints_def fk_present_def
      apply_order_update_def replace_order_spools_def replace_order_hardware_def
      order_stock_step_def needs_deduct_def needs_restore_def Let_def
      ex_item_def ex_line_def ex_order_def stock_db_def order_db_def empty_db_def order_status_only_def)

lemma ex_replace_unfinish:
  "update_order (order_db ''finished'' 7) 5 (order_status_and_lines ''printed'')
     = Inr (order_db ''printed'' 10)"
  by (simp add: update_order_def commit_order_def order_constraints_def fk_present_def
      apply_order_update_def replace_order_spools_def replace_order_hardware_def
      order_stock_step_def needs_deduct_def needs_restore_def Let_def
      truthy_int_def cost_per_item_def py_round_def round_half_even_def
      ex_item_def ex_line_def ex_order_def stock_db_def order_db_def empty_db_def order_status_and_lines_def ex_line_input_def)

theorem create_order_keeps_stock_witness:
  "create_order (stock_db 10) 5 (order_request ''finished'') = Inr (order_db ''finished'' 10)
   \<and> hardware_items (order_db ''finished'' 10) = hardware_items (stock_db 10)
   \<and> hardware_items (stock_db 10) 1 = Some (ex_item 10)
   \<and> orders (order_db ''ordered'' 10) 5 = Some (ex_order ''ordered'')
   \<and> update_order (order_db ''ordered'' 10) 5 (order_status_only ''finished'')
       = Inr (order_db ''finished'' 7)
   \<and> hardware_items (order_db ''finished'' 7) 1 = Some (ex_item 7)
   \<and> delete_order (order_db ''finished'' 7) 5 = Inr (stock_db 10)
   \<and> hardware_items (stock_db 10) = hardware_items (order_db ''ordered'' 10)"
proof -
  have del: "delete_order (order_db ''finished'' 7) 5 = Inr (stock_db 10)"
    using ex_delete_finished [of 7] by simp
  have pre: "orders (order_db ''ordered'' 10) 5 = Some (ex_order ''ordered'')"
    "o_status (ex_order ''ordered'') \<noteq> ''finished''"
    "ou_status (order_status_only ''finished'') = Some (Some ''finished'')"
    by (simp_all add: ex_item_def ex_line_def ex_order_def stock_db_def order_db_def empty_db_def order_status_only_def)
  have one: "hardware_items (order_db ''finished'' 10) = hardware_items (stock_db 10)"
    using create_order_keeps_stock [THEN conjunct1, of "stock_db 10" 5 "order_request ''finished''"
        "order_db ''finished'' 10"] ex_create_finished
    by simp
  have two: "hardware_items (stock_db 10) = hardware_items (order_db ''ordered'' 10)"
    using create_order_keeps_stock [THEN conjunct2, of "order_db ''ordered'' 10" 5
        "ex_order ''ordered''" "order_status_only ''finished''" "order_db ''finished'' 7"
        "stock_db 10"] pre ex_finish del
    by simp
  show ?thesis using ex_create_finished one two pre(1) ex_finish del
    by (simp add: ex_item_def ex_line_def ex_order_def stock_db_def order_db_def empty_db_def)
qed

text \<open>The claim as written fails: right after an order is created as \<open>finished\<close> with a
  line of 3, the stock is 10, not 7 (and deleting that order then leaves 13).\<close>

theorem create_finished_order_counterexample:
  "create_order (stock_db 10) 5 (order_request ''finished'') = Inr (order_db ''finished'' 10)
   \<and> map_option quantity_in_stock (hardware_items (stock_db 10) 1) = Some 10
   \<and> map_option quantity_in_stock (hardware_items (order_db ''finished'' 10) 1) = Some 10
   \<and> delete_order (order_db ''finished'' 10) 5 = Inr (stock_db 13)
   \<and> map_option quantity_in_stock (hardware_items (stock_db 13) 1) = Some 13"
  using ex_create_finished ex_delete_finished [of 10]
  by (simp add: ex_item_def ex_line_def ex_order_def stock_db_def order_db_def empty_db_def)

theorem update_order_stock_effect_witness:
  "orders (order_db ''finished'' 7) 5 = Some (ex_order ''finished'')
   \<and> update_order (order_db ''finished'' 7) 5 (order_status_only ''printed'')
       = Inr (order_db ''printed'' 10)
   \<and> update_order (order_db ''printed'' 10) 5 (order_status_only ''finished'')
       = Inr (order_db ''finished'' 7)
   \<and> hardware_items (order_db ''printed'' 10)
       = restore_order_hardware (hardware_items (order_db ''finished'' 7)) [ex_line]
   \<and> deduct_order_hardware (hardware_items (order_db ''printed'' 10)) [ex_line]
       = Inr (hardware_items (order_db ''finished'' 7))
   \<and> hardware_items (order_db ''printed'' 10) 1 = Some (ex_item 10)
   \<and> hardware_items (order_db ''finished'' 7) 1 = Some (ex_item 7)"
proof -
  have pre: "orders (order_db ''finished'' 7) 5 = Some (ex_order ''finished'')"
    "orders (order_db ''printed'' 10) 5 = Some (ex_order ''printed'')"
    by (simp_all add: ex_item_def ex_line_def ex_order_def stock_db_def order_db_def empty_db_def)
  have st: "status_after (ex_order ''finished'') (order_status_only ''printed'') = ''printed''"
    "status_after (ex_order ''printed'') (order_status_only ''finished'') = ''finished''"
    "ou_hardware_items (order_status_only ''printed'') = None"
    "ou_hardware_items (order_status_only ''finished'') = None"
    "o_status (ex_order ''finished'') = ''finished''"
    "o_status (ex_order ''printed'') = ''printed''"
    "order_hardware (ex_order ''finished'') = [ex_line]"
    "order_hardware (ex_order ''printed'') = [ex_line]"
    by (simp_all add: status_after_def ex_item_def ex_line_def ex_order_def stock_db_def order_db_def empty_db_def order_status_only_def)
  have one: "hardware_items (order_db ''printed'' 10)
       = restore_order_hardware (hardware_items (order_db ''finished'' 7)) [ex_line]"
    using update_order_stock_effect [THEN conjunct1, of "order_db ''finished'' 7" 5
        "order_status_only ''printed''" "order_db ''printed'' 10" "ex_order ''finished''"]
      ex_unfinish pre st
    by (auto simp: Let_def)
  have two: "deduct_order_hardware (hardware_items (order_db ''printed'' 10)) [ex_line]
       = Inr (hardware_items (order_db ''finished'' 7))"
    using update_order_stock_effect [THEN conjunct1, of "order_db ''printed'' 10" 5
        "order_status_only ''finished''" "order_db ''finished'' 7" "ex_order ''printed''"]
      ex_refinish pre st
    by (auto simp: Let_def)
  show ?thesis using pre(1) ex_unfinish ex_refinish one two
    by (simp add: ex_item_def ex_line_def ex_order_def stock_db_def order_db_def empty_db_def)
qed

text \<open>The claim as written fails: a finished order whose lines are replaced in an update
  that sets it to \<open>printed\<close> gets its old lines back (the stock goes from 7 to 10), although
  the lines were replaced in this update.\<close>

theorem replaced_lines_restored_counterexample:
  "orders (order_db ''finished'' 7) 5 = Some (ex_order ''finished'')
   \<and> o_status (ex_order ''finished'') = ''finished''
   \<and> ou_status (order_status_and_lines ''printed'') = Some (Some ''printed'')
   \<and> ou_hardware_items (order_status_and_lines ''printed'') = Some [ex_line_input]
   \<and> update_order (order_db ''finished'' 7) 5 (order_status_and_lines ''printed'')
       = Inr (order_db ''printed'' 10)
   \<and> map_option quantity_in_stock (hardware_items (order_db ''finished'' 7) 1) = Some 7
   \<and> map_option quantity_in_stock (hardware_items (order_db ''printed'' 10) 1) = Some 10
   \<and> \<not> needs_restore ''finished'' (Some ''printed'') True"
  using ex_replace_unfinish
  by (simp add: needs_restore_def order_status_and_lines_def
      ex_item_def ex_line_def ex_order_def stock_db_def order_db_def empty_db_def)

subsection \<open>Products on hand\<close>

lemma project_total_Nil [simp]: "project_total i [] = 0"
  by (simp add: project_total_def)

lemma project_total_Cons [simp]:
  "project_total i (ph # rest) =
     (if ph_hardware_item_id ph = i then ph_quantity ph + project_total i rest
      else project_total i rest)"
  by (simp add: project_total_def)



lemma cost_per_item_stock [simp]:
  "cost_per_item (h\<lparr>quantity_in_stock := n\<rparr>) = cost_per_item h"
  by (simp add: cost_per_item_def)












lemma ex_create_product_completed:
  "create_product_on_hand (workshop_db 10) 4 (product_request ''completed'')
     = Inr (product_db 10 ''completed'')"
  by (simp add: create_product_on_hand_def product_constraints_def fk_present_def truthy_int_def
      truthy_str_def Let_def
      ex_project_def ex_product_def workshop_db_def product_db_def legacy_db_def
      legacy_row_def ex_item_def ex_spool_def empty_db_def ex_settings_def product_request_def)





lemma ex_conflict:
  "convert_to_order converted_db 4 9
     = Inl (Conflict ''This product has already been converted to an order'')"
  by (simp add: convert_to_order_def converted_db_def
      ex_project_def ex_product_def workshop_db_def product_db_def legacy_db_def
      legacy_row_def ex_item_def ex_spool_def empty_db_def ex_settings_def)



end
